theory Spec2Isabelle
  imports Complex_Main
begin

section \<open>ECMAScript dates\<close>

text \<open>
  A JavaScript \<open>Date\<close> holds a time value: milliseconds since 1970-01-01T00:00:00Z, or NaN
  (an Invalid Date). Time values beyond 8.64e15 ms in absolute value are clipped to NaN.
  A local field of a single date is read with the offset \<open>tza\<close> (in ms) that the host's
  (browser's) time zone has at that instant: local time = UTC time + \<open>tza\<close>.
\<close>

datatype jsdate = Invalid_Date | Time int

datatype js_error = RangeError

definition msPerDay :: int where
  "msPerDay = 86400000"

definition msPerHour :: int where
  "msPerHour = 3600000"

definition msPerMinute :: int where
  "msPerMinute = 60000"

definition maxTime :: int where
  "maxTime = 8640000000000000"

definition TimeClip :: "int \<Rightarrow> jsdate" where
  "TimeClip t = (if \<bar>t\<bar> > maxTime then Invalid_Date else Time t)"

definition valid_date :: "jsdate \<Rightarrow> bool" where
  "valid_date d = (case d of Invalid_Date \<Rightarrow> False | Time t \<Rightarrow> \<bar>t\<bar> \<le> maxTime)"

definition Day :: "int \<Rightarrow> int" where
  "Day t = t div msPerDay"

definition TimeWithinDay :: "int \<Rightarrow> int" where
  "TimeWithinDay t = t mod msPerDay"

definition LocalTime :: "int \<Rightarrow> int \<Rightarrow> int" where
  "LocalTime tza t = t + tza"

text \<open>
  The months are numbered from 0 (\<open>MonthFromTime\<close>), the days of the week from Sunday = 0
  (\<open>WeekDay\<close>; 1970-01-01 was a Thursday).

  Calendar fields of a day number (days since 1970-01-01) in the proleptic Gregorian
  calendar: year, month (1 to 12) and day of the month (1 to 31), computed era by era
  (400-year cycles of 146097 days, years beginning on 1 March).
\<close>

definition civil :: "int \<Rightarrow> int \<times> int \<times> int" where
  "civil z0 =
     (let z = z0 + 719468;
          era = z div 146097;
          doe = z mod 146097;
          yoe = (doe - doe div 1460 + doe div 36524 - doe div 146096) div 365;
          doy = doe - (365 * yoe + yoe div 4 - yoe div 100);
          mp = (5 * doy + 2) div 153;
          d = doy - (153 * mp + 2) div 5 + 1;
          m = (if mp < 10 then mp + 3 else mp - 9);
          y = yoe + era * 400 + (if m \<le> 2 then 1 else 0)
      in (y, m, d))"

definition YearFromTime :: "int \<Rightarrow> int" where
  "YearFromTime t = fst (civil (Day t))"

definition MonthFromTime :: "int \<Rightarrow> int" where
  "MonthFromTime t = fst (snd (civil (Day t))) - 1"

definition DateFromTime :: "int \<Rightarrow> int" where
  "DateFromTime t = snd (snd (civil (Day t)))"

definition WeekDay :: "int \<Rightarrow> int" where
  "WeekDay t = (Day t + 4) mod 7"

definition HourFromTime :: "int \<Rightarrow> int" where
  "HourFromTime t = (t div msPerHour) mod 24"

definition MinFromTime :: "int \<Rightarrow> int" where
  "MinFromTime t = (t div msPerMinute) mod 60"

definition SecFromTime :: "int \<Rightarrow> int" where
  "SecFromTime t = (t div 1000) mod 60"

definition msFromTime :: "int \<Rightarrow> int" where
  "msFromTime t = t mod 1000"

text \<open>\<open>date.getDay()\<close>: a local-time field, NaN (\<open>None\<close>) on an Invalid Date.\<close>

definition getDay :: "int \<Rightarrow> jsdate \<Rightarrow> int option" where
  "getDay tza d =
     (case d of Invalid_Date \<Rightarrow> None | Time t \<Rightarrow> Some (WeekDay (LocalTime tza t)))"

text \<open>\<open>d <= end\<close> on two dates compares the time values; a comparison with NaN is false.\<close>

definition date_le :: "jsdate \<Rightarrow> jsdate \<Rightarrow> bool" where
  "date_le a b =
     (case a of Invalid_Date \<Rightarrow> False
      | Time s \<Rightarrow> (case b of Invalid_Date \<Rightarrow> False | Time e \<Rightarrow> s \<le> e))"

section \<open>The host zone over a range of instants\<close>

text \<open>
  A walk over many days meets the offset changes of the host zone. A host zone gives the
  two readings of ECMAScript's \<open>LocalTZA\<close>: the offset in force at a UTC time value, and
  the offset by which a local time value is read back (at a local time that a change
  skips or repeats, the offset before the change). A step of one local day moves the
  time value forward.
\<close>

typedef host_zone =
  "{(fu :: int \<Rightarrow> int, fl :: int \<Rightarrow> int). \<forall>t. fl (t + fu t + msPerDay) < fu t + msPerDay}"
  morphisms offsets_of make_host_zone
proof
  show "(\<lambda>_. 0, \<lambda>_. 0) \<in> {(fu :: int \<Rightarrow> int, fl :: int \<Rightarrow> int).
            \<forall>t. fl (t + fu t + msPerDay) < fu t + msPerDay}"
    by (simp add: msPerDay_def)
qed

setup_lifting type_definition_host_zone

definition LocalTZA :: "host_zone \<Rightarrow> int \<Rightarrow> bool \<Rightarrow> int" where
  "LocalTZA hz t isUTC = (if isUTC then fst (offsets_of hz) t else snd (offsets_of hz) t)"

text \<open>A host that keeps the offset \<open>c\<close> (in ms) at all times.\<close>

lift_definition fixed_zone :: "int \<Rightarrow> host_zone" is "\<lambda>c. (\<lambda>_. c, \<lambda>_. c)"
  by (simp add: msPerDay_def)

text \<open>
  America/New_York around 2024: UTC-5, and UTC-4 from 2024-03-10T07:00Z (local 02:00
  becomes 03:00) to 2024-11-03T06:00Z (local 02:00 becomes 01:00).
\<close>

lift_definition new_york_2024 :: host_zone is
  "(\<lambda>t. if 1710054000000 \<le> t \<and> t < 1730613600000 then - 14400000 else - 18000000,
    \<lambda>l. if 1710039600000 \<le> l \<and> l < 1730599200000 then - 14400000 else - 18000000)"
  by (simp add: msPerDay_def)

text \<open>\<open>date.getFullYear()\<close>: the year of the local time, NaN (\<open>None\<close>) on an Invalid Date.\<close>

definition getFullYear :: "host_zone \<Rightarrow> jsdate \<Rightarrow> int option" where
  "getFullYear hz d =
     (case d of Invalid_Date \<Rightarrow> None
      | Time tv \<Rightarrow> Some (YearFromTime (LocalTime (LocalTZA hz tv True) tv)))"

definition MakeDate :: "int \<Rightarrow> int \<Rightarrow> int" where
  "MakeDate day time = day * msPerDay + time"

text \<open>
  \<open>d.setDate(d.getDate() + 1)\<close>, as ECMAScript defines \<open>setDate\<close>: with \<open>t\<close> the local time
  of the date, the new local time is \<open>MakeDate(MakeDay(year, month, date + 1), TimeWithinDay(t))\<close>,
  where the day number of the year, the month and the day of the month of \<open>t\<close> plus one is
  the day after \<open>Day(t)\<close>; it is read back as a UTC time value and clipped. The local
  calendar day advances by one and the local time of day is kept, unless that local
  time is skipped on the new day.
\<close>

definition nextDay :: "host_zone \<Rightarrow> jsdate \<Rightarrow> jsdate" where
  "nextDay hz d =
     (case d of
        Invalid_Date \<Rightarrow> Invalid_Date
      | Time tv \<Rightarrow>
          (let t = LocalTime (LocalTZA hz tv True) tv;
               newDate = MakeDate (Day t + 1) (TimeWithinDay t)
           in TimeClip (newDate - LocalTZA hz newDate False)))"

section \<open>JavaScript Set as an insertion-ordered list\<close>

definition set_add :: "'a list \<Rightarrow> 'a \<Rightarrow> 'a list" where
  "set_add s x = (if x \<in> set s then s else s @ [x])"

definition set_from :: "'a list \<Rightarrow> 'a list" where
  "set_from xs = foldl set_add [] xs"

section \<open>getYearsInRange\<close>

function yearsLoop :: "host_zone \<Rightarrow> jsdate \<Rightarrow> jsdate \<Rightarrow> int list \<Rightarrow> int list" where
  "yearsLoop hz d e years =
     (if date_le d e then
        (case getFullYear hz d of
           None \<Rightarrow> years
         | Some y \<Rightarrow> yearsLoop hz (nextDay hz d) e (set_add years y))
      else years)"
  by pat_completeness auto
termination
proof (relation "measure (\<lambda>(hz, d, e, years).
          (case d of Invalid_Date \<Rightarrow> 0
           | Time s \<Rightarrow> (case e of Invalid_Date \<Rightarrow> 0 | Time t \<Rightarrow> nat (t - s + 1))))")
  show "wf (measure (\<lambda>(hz, d, e, years).
          (case d of Invalid_Date \<Rightarrow> 0
           | Time s \<Rightarrow> (case e of Invalid_Date \<Rightarrow> 0 | Time t \<Rightarrow> nat (t - s + 1)))))"
    by simp
next
  fix hz :: host_zone and d e :: jsdate and years :: "int list" and y :: int
  assume le: "date_le d e" and "getFullYear hz d = Some y"
  from le obtain s t where d: "d = Time s" and e: "e = Time t" and st: "s \<le> t"
    by (auto simp: date_le_def split: jsdate.splits)
  obtain fu fl where p: "offsets_of hz = (fu, fl)" by (cases "offsets_of hz")
  have "offsets_of hz \<in> {(fu, fl). \<forall>t. fl (t + fu t + msPerDay) < fu t + msPerDay}"
    by (rule offsets_of)
  with p have fwd: "fl (s + fu s + msPerDay) < fu s + msPerDay" by simp
  have md: "MakeDate (Day (s + fu s) + 1) (TimeWithinDay (s + fu s)) = s + fu s + msPerDay"
    by (simp add: MakeDate_def Day_def TimeWithinDay_def algebra_simps)
  show "((hz, nextDay hz d, e, set_add years y), (hz, d, e, years))
        \<in> measure (\<lambda>(hz, d, e, years).
          (case d of Invalid_Date \<Rightarrow> 0
           | Time s \<Rightarrow> (case e of Invalid_Date \<Rightarrow> 0 | Time t \<Rightarrow> nat (t - s + 1))))"
    using st fwd
    by (simp add: d e nextDay_def TimeClip_def LocalTime_def LocalTZA_def p md Let_def)
qed

text \<open>
  \<open>start\<close> and \<open>end\<close> may be \<open>null\<close> (\<open>None\<close>); \<open>new Date(start)\<close> copies the time value.
  The result is the Set of years in insertion order.
\<close>

definition getYearsInRange :: "host_zone \<Rightarrow> jsdate option \<Rightarrow> jsdate option \<Rightarrow> int list" where
  "getYearsInRange hz start end' =
     (case start of None \<Rightarrow> []
      | Some s \<Rightarrow> (case end' of None \<Rightarrow> [] | Some e \<Rightarrow> yearsLoop hz s e []))"

text \<open>
  The calendar's date list (\<open>allDates\<close>): one copy of the walking date per step, by the
  same loop.
\<close>

function datesLoop :: "host_zone \<Rightarrow> jsdate \<Rightarrow> jsdate \<Rightarrow> jsdate list \<Rightarrow> jsdate list" where
  "datesLoop hz d e acc =
     (if date_le d e then datesLoop hz (nextDay hz d) e (acc @ [d]) else acc)"
  by pat_completeness auto
termination
proof (relation "measure (\<lambda>(hz, d, e, acc).
          (case d of Invalid_Date \<Rightarrow> 0
           | Time s \<Rightarrow> (case e of Invalid_Date \<Rightarrow> 0 | Time t \<Rightarrow> nat (t - s + 1))))")
  show "wf (measure (\<lambda>(hz, d, e, acc).
          (case d of Invalid_Date \<Rightarrow> 0
           | Time s \<Rightarrow> (case e of Invalid_Date \<Rightarrow> 0 | Time t \<Rightarrow> nat (t - s + 1)))))"
    by simp
next
  fix hz :: host_zone and d e :: jsdate and acc :: "jsdate list"
  assume "date_le d e"
  then obtain s t where d: "d = Time s" and e: "e = Time t" and st: "s \<le> t"
    by (auto simp: date_le_def split: jsdate.splits)
  obtain fu fl where p: "offsets_of hz = (fu, fl)" by (cases "offsets_of hz")
  have "offsets_of hz \<in> {(fu, fl). \<forall>t. fl (t + fu t + msPerDay) < fu t + msPerDay}"
    by (rule offsets_of)
  with p have fwd: "fl (s + fu s + msPerDay) < fu s + msPerDay" by simp
  have md: "MakeDate (Day (s + fu s) + 1) (TimeWithinDay (s + fu s)) = s + fu s + msPerDay"
    by (simp add: MakeDate_def Day_def TimeWithinDay_def algebra_simps)
  show "((hz, nextDay hz d, e, acc @ [d]), (hz, d, e, acc))
        \<in> measure (\<lambda>(hz, d, e, acc).
          (case d of Invalid_Date \<Rightarrow> 0
           | Time s \<Rightarrow> (case e of Invalid_Date \<Rightarrow> 0 | Time t \<Rightarrow> nat (t - s + 1))))"
    using st fwd
    by (simp add: d e nextDay_def TimeClip_def LocalTime_def LocalTZA_def p md Let_def)
qed

definition allDates :: "host_zone \<Rightarrow> jsdate option \<Rightarrow> jsdate option \<Rightarrow> jsdate list" where
  "allDates hz start end' =
     (case start of None \<Rightarrow> []
      | Some s \<Rightarrow> (case end' of None \<Rightarrow> [] | Some e \<Rightarrow> datesLoop hz s e []))"

text \<open>
  The host keeps the offset \<open>c\<close> over a walk from \<open>s\<close> to \<open>e\<close>: at every time value of the
  range, and for every local time up to one day past \<open>e\<close>.
\<close>

definition steady_offset :: "host_zone \<Rightarrow> int \<Rightarrow> int \<Rightarrow> int \<Rightarrow> bool" where
  "steady_offset hz c s e =
     ((\<forall>t. s \<le> t \<and> t \<le> e \<longrightarrow> LocalTZA hz t True = c)
      \<and> (\<forall>l. s + c + msPerDay \<le> l \<and> l \<le> e + c + msPerDay \<longrightarrow> LocalTZA hz l False = c))"

section \<open>Date strings\<close>

definition digit :: "nat \<Rightarrow> char" where
  "digit n = ''0123456789'' ! (n mod 10)"

fun fixed_digits :: "nat \<Rightarrow> nat \<Rightarrow> string" where
  "fixed_digits 0 n = []"
| "fixed_digits (Suc w) n = fixed_digits w (n div 10) @ [digit n]"

fun decimal :: "nat \<Rightarrow> string" where
  "decimal n = (if n < 10 then [digit n] else decimal (n div 10) @ [digit n])"

text \<open>\<open>String(n)\<close> for an integral number, as \<open>Array.prototype.join\<close> prints a year.\<close>

definition show_int :: "int \<Rightarrow> string" where
  "show_int n = (if n < 0 then ''-'' else []) @ decimal (nat \<bar>n\<bar>)"

text \<open>
  \<open>Date.prototype.toISOString\<close>: a RangeError on an Invalid Date; otherwise the UTC fields,
  the year with four digits from 0 to 9999 and with a sign and six digits outside.
\<close>

definition iso_year :: "int \<Rightarrow> string" where
  "iso_year y =
     (if 0 \<le> y \<and> y \<le> 9999 then fixed_digits 4 (nat y)
      else (if y < 0 then ''-'' else ''+'') @ fixed_digits 6 (nat \<bar>y\<bar>))"

definition toISOString :: "jsdate \<Rightarrow> js_error + string" where
  "toISOString d =
     (case d of
        Invalid_Date \<Rightarrow> Inl RangeError
      | Time t \<Rightarrow> Inr (iso_year (YearFromTime t) @ ''-''
                      @ fixed_digits 2 (nat (MonthFromTime t + 1)) @ ''-''
                      @ fixed_digits 2 (nat (DateFromTime t)) @ ''T''
                      @ fixed_digits 2 (nat (HourFromTime t)) @ '':''
                      @ fixed_digits 2 (nat (MinFromTime t)) @ '':''
                      @ fixed_digits 2 (nat (SecFromTime t)) @ ''.''
                      @ fixed_digits 3 (nat (msFromTime t)) @ ''Z''))"

text \<open>
  \<open>moment(d).format('YYYY-MM-DD')\<close> in the library's default (host-local) zone: every field
  is zero-filled to its width, with a minus sign for a negative number, and an invalid
  moment prints as \<open>Invalid date\<close>.
\<close>

definition zeroFill :: "int \<Rightarrow> nat \<Rightarrow> string" where
  "zeroFill n w =
     (if 0 \<le> n then [] else ''-'')
       @ replicate (w - length (decimal (nat \<bar>n\<bar>))) (CHR ''0'') @ decimal (nat \<bar>n\<bar>)"

definition moment_format_ymd :: "int \<Rightarrow> jsdate \<Rightarrow> string" where
  "moment_format_ymd tza d =
     (case d of
        Invalid_Date \<Rightarrow> ''Invalid date''
      | Time t \<Rightarrow>
          (let lt = LocalTime tza t
           in zeroFill (YearFromTime lt) 4 @ ''-'' @ zeroFill (MonthFromTime lt + 1) 2
                @ ''-'' @ zeroFill (DateFromTime lt) 2))"

section \<open>Array helpers with exceptions\<close>

text \<open>
  \<open>Array.prototype.every\<close> and \<open>filter\<close> with a callback that may throw: the first
  exception ends the traversal, and \<open>every\<close> stops at the first \<open>false\<close>.
\<close>

fun every_e :: "('a \<Rightarrow> js_error + bool) \<Rightarrow> 'a list \<Rightarrow> js_error + bool" where
  "every_e f [] = Inr True"
| "every_e f (x # xs) =
     (case f x of Inl err \<Rightarrow> Inl err
      | Inr b \<Rightarrow> (if b then every_e f xs else Inr False))"

fun filter_e :: "('a \<Rightarrow> js_error + bool) \<Rightarrow> 'a list \<Rightarrow> js_error + 'a list" where
  "filter_e f [] = Inr []"
| "filter_e f (x # xs) =
     (case f x of Inl err \<Rightarrow> Inl err
      | Inr b \<Rightarrow> (case filter_e f xs of Inl err \<Rightarrow> Inl err
                 | Inr ys \<Rightarrow> Inr (if b then x # ys else ys)))"

fun join :: "string \<Rightarrow> string list \<Rightarrow> string" where
  "join sep [] = []"
| "join sep [x] = x"
| "join sep (x # y # ys) = x @ sep @ join sep (y # ys)"

text \<open>\<open>s.split(' ')[0]\<close>: the part of \<open>s\<close> before its first space.\<close>

definition split_first :: "string \<Rightarrow> string" where
  "split_first s = takeWhile (\<lambda>c. c \<noteq> CHR '' '') s"

section \<open>Participants and the registry\<close>

text \<open>
  A participant as the map picker builds it: \<open>id\<close> is the text of the coordinates,
  \<open>timezone\<close> the zone name, followed by a warning after a space when the lookup failed.
\<close>

record participant =
  p_id :: string
  p_name :: string
  p_iso2 :: string
  p_timezone :: string
  p_time :: string
  p_lat :: real
  p_lng :: real

definition handleAddParticipant :: "participant list \<Rightarrow> participant \<Rightarrow> participant list" where
  "handleAddParticipant selectedParticipants participant =
     (if \<not> list_ex (\<lambda>p. p_id p = p_id participant) selectedParticipants
      then selectedParticipants @ [participant]
      else selectedParticipants)"

definition handleRemoveParticipant :: "participant list \<Rightarrow> string \<Rightarrow> participant list" where
  "handleRemoveParticipant selectedParticipants i =
     filter (\<lambda>p. p_id p \<noteq> i) selectedParticipants"

text \<open>The user's actions on the registry: a map click, a click on a remove button, Reset.\<close>

datatype registry_action = Add participant | Remove string | Reset

fun registry_step :: "participant list \<Rightarrow> registry_action \<Rightarrow> participant list" where
  "registry_step ps (Add p) = handleAddParticipant ps p"
| "registry_step ps (Remove i) = handleRemoveParticipant ps i"
| "registry_step ps Reset = []"

definition registry_run :: "registry_action list \<Rightarrow> participant list" where
  "registry_run acts = foldl registry_step [] acts"

text \<open>\<open>filter(Boolean)\<close> on strings drops the empty ones.\<close>

definition countryCodes :: "participant list \<Rightarrow> string list" where
  "countryCodes selectedParticipants =
     set_from (filter (\<lambda>s. s \<noteq> []) (map p_iso2 selectedParticipants))"

definition timezones :: "participant list \<Rightarrow> string list" where
  "timezones selectedParticipants =
     set_from (filter (\<lambda>s. s \<noteq> []) (map (\<lambda>p. split_first (p_timezone p)) selectedParticipants))"

section \<open>Holidays and the classification of a date\<close>

record holiday =
  h_date :: string
  h_localName :: string
  h_name :: string
  h_countryCode :: string
  h_type :: string

type_synonym holidays_by_country = "string \<rightharpoonup> holiday list"

text \<open>\<open>holidaysByCountry[code] || []\<close>\<close>

definition holidaysOf :: "holidays_by_country \<Rightarrow> string \<Rightarrow> holiday list" where
  "holidaysOf hbc code = (case hbc code of None \<Rightarrow> [] | Some hs \<Rightarrow> hs)"

definition isWeekend :: "int \<Rightarrow> jsdate \<Rightarrow> bool" where
  "isWeekend tza date =
     (case getDay tza date of None \<Rightarrow> False | Some day \<Rightarrow> day = 0 \<or> day = 6)"

definition isHoliday :: "holidays_by_country \<Rightarrow> string list \<Rightarrow> jsdate \<Rightarrow> js_error + bool" where
  "isHoliday hbc codes date =
     (case toISOString date of
        Inl err \<Rightarrow> Inl err
      | Inr str \<Rightarrow>
          (let dstr = take 10 str
           in Inr (list_all (\<lambda>code. list_ex (\<lambda>h. h_date h = dstr) (holidaysOf hbc code)) codes)))"

definition isWorkday ::
  "int \<Rightarrow> holidays_by_country \<Rightarrow> string list \<Rightarrow> jsdate \<Rightarrow> js_error + bool" where
  "isWorkday tza hbc codes date =
     every_e (\<lambda>code.
        (case toISOString date of
           Inl err \<Rightarrow> Inl err
         | Inr str \<Rightarrow>
             (let dstr = take 10 str;
                  isHol = list_ex (\<lambda>h. h_date h = dstr) (holidaysOf hbc code)
              in Inr (\<not> isHol \<and> \<not> isWeekend tza date)))) codes"

text \<open>
  \<open>filteredDates\<close>: the dates of the view that pass the active filter; any other filter
  name passes nothing.
\<close>

definition filteredDates ::
  "int \<Rightarrow> holidays_by_country \<Rightarrow> string list \<Rightarrow> string \<Rightarrow> jsdate list \<Rightarrow> js_error + jsdate list" where
  "filteredDates tza hbc codes filterType dates =
     filter_e (\<lambda>d.
        if filterType = ''workday'' then isWorkday tza hbc codes d
        else if filterType = ''weekend'' then Inr (isWeekend tza d)
        else if filterType = ''holiday'' then isHoliday hbc codes d
        else Inr False) dates"

text \<open>
  The check made on each filtered date before the \<open>All: Holiday\<close> highlight: every country
  has a record of type \<open>Public\<close> on the date's local \<open>YYYY-MM-DD\<close>.
\<close>

definition isAllPublicHoliday ::
  "int \<Rightarrow> holidays_by_country \<Rightarrow> string list \<Rightarrow> jsdate \<Rightarrow> bool" where
  "isAllPublicHoliday tza hbc codes d =
     list_all (\<lambda>code.
        (let dstr = moment_format_ymd tza d
         in list_ex (\<lambda>h. h_date h = dstr \<and> h_type h = ''Public'') (holidaysOf hbc code))) codes"

record filter_event =
  ev_title :: string
  ev_start :: jsdate
  ev_end :: jsdate
  ev_allDay :: bool
  ev_resource_type :: string
  ev_resource_filterType :: string

definition filter_title :: "string \<Rightarrow> string" where
  "filter_title filterType =
     (if filterType = ''holiday'' then ''All: Holiday''
      else if filterType = ''weekend'' then ''All: Weekend'' else ''All: Workday'')"

text \<open>
  The highlight loop over \<open>filteredDates\<close>; \<open>||\<close> and \<open>&&\<close> evaluate from the left and
  stop early, so \<open>isWorkday\<close> runs only under the workday filter.
\<close>

fun filterEvents ::
  "int \<Rightarrow> holidays_by_country \<Rightarrow> string list \<Rightarrow> string \<Rightarrow> jsdate list
     \<Rightarrow> js_error + filter_event list" where
  "filterEvents tza hbc codes filterType [] = Inr []"
| "filterEvents tza hbc codes filterType (d # ds) =
     (let allPublic = (if filterType = ''holiday'' then isAllPublicHoliday tza hbc codes d else False);
          shown = (if filterType = ''holiday'' \<and> allPublic then Inr True
                   else if filterType = ''weekend'' \<and> isWeekend tza d then Inr True
                   else if filterType = ''workday'' then isWorkday tza hbc codes d
                   else Inr False)
      in case shown of
           Inl err \<Rightarrow> Inl err
         | Inr b \<Rightarrow>
             (case filterEvents tza hbc codes filterType ds of
                Inl err \<Rightarrow> Inl err
              | Inr evs \<Rightarrow>
                  Inr (if b then \<lparr>ev_title = filter_title filterType, ev_start = d, ev_end = d,
                                  ev_allDay = True, ev_resource_type = ''filter'',
                                  ev_resource_filterType = filterType\<rparr> # evs
                       else evs)))"

text \<open>The dates highlighted in the calendar under a filter: filtered, then gated.\<close>

definition highlighted ::
  "int \<Rightarrow> holidays_by_country \<Rightarrow> string list \<Rightarrow> string \<Rightarrow> jsdate list \<Rightarrow> js_error + jsdate list" where
  "highlighted tza hbc codes filterType dates =
     (case filteredDates tza hbc codes filterType dates of
        Inl err \<Rightarrow> Inl err
      | Inr ds \<Rightarrow>
          (case filterEvents tza hbc codes filterType ds of
             Inl err \<Rightarrow> Inl err
           | Inr evs \<Rightarrow> Inr (map ev_start evs)))"

section \<open>Common awake hours\<close>

text \<open>
  The operations of the time-zone library that the hour computation calls, as an
  interface over a type \<open>'m\<close> of moments: \<open>moment(date)\<close>, \<open>.tz(zone)\<close>, the setters
  \<open>.hour(h)\<close>, \<open>.minute(m)\<close>, \<open>.second(s)\<close> and the getter \<open>.hour()\<close> (NaN, here \<open>None\<close>,
  on an invalid moment). \<open>clone()\<close> is the identity on immutable values.
\<close>

record 'm moment_lib =
  moment_of :: "jsdate \<Rightarrow> 'm"
  tz :: "'m \<Rightarrow> string \<Rightarrow> 'm"
  set_hour :: "'m \<Rightarrow> int \<Rightarrow> 'm"
  set_minute :: "'m \<Rightarrow> int \<Rightarrow> 'm"
  set_second :: "'m \<Rightarrow> int \<Rightarrow> 'm"
  get_hour :: "'m \<Rightarrow> int option"

definition display_instant :: "'m moment_lib \<Rightarrow> jsdate \<Rightarrow> string \<Rightarrow> int \<Rightarrow> 'm" where
  "display_instant lib date z h =
     set_second lib (set_minute lib (set_hour lib (tz lib (moment_of lib date) z) h) 0) 0"

definition awake :: "'m moment_lib \<Rightarrow> int \<Rightarrow> int \<Rightarrow> 'm \<Rightarrow> participant \<Rightarrow> bool" where
  "awake lib awakeStart awakeEnd dt p =
     (let local = tz lib dt (split_first (p_timezone p))
      in case get_hour lib local of
           None \<Rightarrow> False
         | Some hour \<Rightarrow> hour \<ge> awakeStart \<and> hour < awakeEnd)"

function hoursLoop ::
  "'m moment_lib \<Rightarrow> participant list \<Rightarrow> int \<Rightarrow> int \<Rightarrow> jsdate \<Rightarrow> string \<Rightarrow> int \<Rightarrow> int list
     \<Rightarrow> int list" where
  "hoursLoop lib ps awakeStart awakeEnd date z h hours =
     (if h < 24 then
        (let dt = display_instant lib date z h;
             allAwake = list_all (awake lib awakeStart awakeEnd dt) ps
         in hoursLoop lib ps awakeStart awakeEnd date z (h + 1)
              (if allAwake then hours @ [h] else hours))
      else hours)"
  by pat_completeness auto
termination
  by (relation "measure (\<lambda>(lib, ps, awakeStart, awakeEnd, date, z, h, hours). nat (24 - h))") auto

definition getCommonAwakeHours ::
  "'m moment_lib \<Rightarrow> participant list \<Rightarrow> int \<Rightarrow> int \<Rightarrow> jsdate \<Rightarrow> string \<Rightarrow> int list" where
  "getCommonAwakeHours lib selectedParticipants awakeStart awakeEnd date z =
     hoursLoop lib selectedParticipants awakeStart awakeEnd date z 0 []"

text \<open>
  The progress bar of the time filter computes the same flag per hour, behind a test
  that there is a participant.
\<close>

definition barAllAwake ::
  "'m moment_lib \<Rightarrow> participant list \<Rightarrow> int \<Rightarrow> int \<Rightarrow> jsdate \<Rightarrow> string \<Rightarrow> int \<Rightarrow> bool" where
  "barAllAwake lib selectedParticipants awakeStart awakeEnd selectedDate calendarTz h =
     (let dt = display_instant lib selectedDate calendarTz h
      in length selectedParticipants > 0
         \<and> list_all (awake lib awakeStart awakeEnd dt) selectedParticipants)"

text \<open>
  An instance of the interface for zones that keep one UTC offset all year: a moment is
  a date with the offset (in ms) of its zone, \<open>offsets\<close> gives the offset of a zone name in
  minutes, and a setter replaces one local field.
\<close>

definition fixed_lib :: "int \<Rightarrow> (string \<Rightarrow> int) \<Rightarrow> (jsdate \<times> int) moment_lib" where
  "fixed_lib tza offsets =
     \<lparr> moment_of = (\<lambda>d. (d, tza)),
       tz = (\<lambda>(d, off) z. (d, offsets z * msPerMinute)),
       set_hour = (\<lambda>(d, off) h.
          (case d of Invalid_Date \<Rightarrow> (Invalid_Date, off)
           | Time t \<Rightarrow> (Time (t + (h - HourFromTime (t + off)) * msPerHour), off))),
       set_minute = (\<lambda>(d, off) m.
          (case d of Invalid_Date \<Rightarrow> (Invalid_Date, off)
           | Time t \<Rightarrow> (Time (t + (m - MinFromTime (t + off)) * msPerMinute), off))),
       set_second = (\<lambda>(d, off) s.
          (case d of Invalid_Date \<Rightarrow> (Invalid_Date, off)
           | Time t \<Rightarrow> (Time (t + (s - SecFromTime (t + off)) * 1000), off))),
       get_hour = (\<lambda>(d, off).
          (case d of Invalid_Date \<Rightarrow> None | Time t \<Rightarrow> Some (HourFromTime (t + off)))) \<rparr>"









section \<open>The holiday fetch effect\<close>

type_synonym holidays_cache = "string \<rightharpoonup> (int \<rightharpoonup> holiday list)"

record fetch_state =
  lastFetchKey :: string
  holidaysCache :: holidays_cache

text \<open>Truthiness of \<open>holidaysCache.current[code][year]\<close>; an array is truthy, also when empty.\<close>

definition cached :: "holidays_cache \<Rightarrow> string \<Rightarrow> int \<Rightarrow> bool" where
  "cached c code year = (case c code of None \<Rightarrow> False | Some m \<Rightarrow> m year \<noteq> None)"

definition fetchKey :: "string list \<Rightarrow> int list \<Rightarrow> string" where
  "fetchKey codes years = join '','' codes @ ''|'' @ join '','' (map show_int years)"

text \<open>The inner \<open>forEach\<close>: a fetch task (code, year) is pushed for each year without an entry.\<close>

definition yearsForEach ::
  "holidays_cache \<Rightarrow> string \<Rightarrow> int list \<Rightarrow> (string \<times> int) list \<Rightarrow> (string \<times> int) list" where
  "yearsForEach c code years tasks =
     foldl (\<lambda>ts year. if \<not> cached c code year then ts @ [(code, year)] else ts) tasks years"

text \<open>The outer \<open>forEach\<close>: a country without a cache slot gets an empty one first.\<close>

definition codesForEach ::
  "holidays_cache \<Rightarrow> string list \<Rightarrow> int list \<Rightarrow> holidays_cache \<times> (string \<times> int) list" where
  "codesForEach c codes years =
     foldl (\<lambda>(c, ts) code.
        (let c' = (if c code = None then c(code \<mapsto> Map.empty) else c)
         in (c', yearsForEach c' code years ts))) (c, []) codes"

text \<open>
  One run of the effect: the new state and the fetches issued, in order. The cache is
  written only when a fetch settles, after the run.
\<close>

definition fetchEffect ::
  "host_zone \<Rightarrow> fetch_state \<Rightarrow> jsdate option \<Rightarrow> jsdate option \<Rightarrow> string list
     \<Rightarrow> fetch_state \<times> (string \<times> int) list" where
  "fetchEffect hz st range_start range_end codes =
     (if range_start = None \<or> range_end = None \<or> length codes = 0 then (st, [])
      else
        (let years = getYearsInRange hz range_start range_end;
             key = fetchKey codes years
         in if lastFetchKey st = key then (st, [])
            else
              (let (c', tasks) = codesForEach (holidaysCache st) codes years
               in (st\<lparr>lastFetchKey := key, holidaysCache := c'\<rparr>, tasks))))"

text \<open>
  A fetch settles: its data, or the empty list after a failure, is stored in the slot of
  its country and year.
\<close>

definition settle :: "fetch_state \<Rightarrow> string \<times> int \<times> holiday list \<Rightarrow> fetch_state" where
  "settle st r =
     (case r of (code, year, data) \<Rightarrow>
        (case holidaysCache st code of
           None \<Rightarrow> st
         | Some m \<Rightarrow> st\<lparr>holidaysCache := (holidaysCache st)(code \<mapsto> m(year \<mapsto> data))\<rparr>))"

text \<open>After all fetches have settled: the cached years of each country, concatenated.\<close>

definition mergeByCountry :: "holidays_cache \<Rightarrow> string list \<Rightarrow> int list \<Rightarrow> holidays_by_country" where
  "mergeByCountry c codes years =
     foldl (\<lambda>byCountry code.
        byCountry(code \<mapsto>
          foldl (\<lambda>acc year.
             (case c code of None \<Rightarrow> acc
              | Some m \<Rightarrow> (case m year of None \<Rightarrow> acc | Some hs \<Rightarrow> acc @ hs))) [] years))
       Map.empty codes"

text \<open>The number of day steps of the range walk from time value \<open>s\<close> up to \<open>e\<close>.\<close>

definition steps :: "int \<Rightarrow> int \<Rightarrow> nat" where
  "steps s e = (if s \<le> e then nat ((e - s) div msPerDay) + 1 else 0)"

text \<open>One step of the outer \<open>forEach\<close>, as a function of the pair it threads.\<close>

definition codes_step ::
  "int list \<Rightarrow> holidays_cache \<times> (string \<times> int) list \<Rightarrow> string
     \<Rightarrow> holidays_cache \<times> (string \<times> int) list" where
  "codes_step years = (\<lambda>(c, ts) code.
        (let c' = (if c code = None then c(code \<mapsto> Map.empty) else c)
         in (c', yearsForEach c' code years ts)))"

section \<open>Sample data\<close>

text \<open>
  Two instants: 2024-07-04T00:00:00Z, a Thursday, and 2024-07-05T20:00:00Z, a Friday
  evening in UTC and already Saturday in Tokyo.
\<close>

definition july4_2024 :: int where
  "july4_2024 = 1720051200000"

definition friday_evening :: int where
  "friday_evening = 1720209600000"

text \<open>Offsets in minutes of three zones without daylight saving.\<close>

definition sample_offsets :: "string \<Rightarrow> int" where
  "sample_offsets z =
     (if z = ''Asia/Tokyo'' then 540 else if z = ''Asia/Kolkata'' then 330 else 0)"

definition tokyo :: participant where
  "tokyo = \<lparr>p_id = ''36,140'', p_name = ''Japan'', p_iso2 = ''JP'',
            p_timezone = ''Asia/Tokyo'', p_time = ''09:00, Thu'', p_lat = 36, p_lng = 140\<rparr>"

definition delhi :: participant where
  "delhi = \<lparr>p_id = ''29,77'', p_name = ''India'', p_iso2 = ''IN'',
            p_timezone = ''Asia/Kolkata'', p_time = ''05:30, Thu'', p_lat = 29, p_lng = 77\<rparr>"

text \<open>A click on the open sea: no country; the zone lookup gives a nautical zone.\<close>

definition mid_atlantic :: participant where
  "mid_atlantic = \<lparr>p_id = ''0,-30'', p_name = ''Unknown'', p_iso2 = [],
            p_timezone = ''Etc/GMT+2'',
            p_time = ''22:00, Wed'', p_lat = 0, p_lng = - 30\<rparr>"



definition independence_day :: holiday where
  "independence_day = \<lparr>h_date = ''2024-07-04'', h_localName = ''Independence Day'',
            h_name = ''Independence Day'', h_countryCode = ''US'', h_type = ''Public''\<rparr>"

definition observance_day :: holiday where
  "observance_day = \<lparr>h_date = ''2024-07-04'', h_localName = ''Tanabata Eve'',
            h_name = ''Tanabata Eve'', h_countryCode = ''JP'', h_type = ''Observance''\<rparr>"

definition us_holidays :: holidays_by_country where
  "us_holidays = [''US'' \<mapsto> [independence_day]]"

definition jp_observance :: holidays_by_country where
  "jp_observance = [''JP'' \<mapsto> [observance_day]]"

definition empty_state :: fetch_state where
  "empty_state = \<lparr>lastFetchKey = [], holidaysCache = Map.empty\<rparr>"

section \<open>Properties: the range walk\<close>

declare yearsLoop.simps [simp del]
declare datesLoop.simps [simp del]
declare hoursLoop.simps [simp del]

lemma steps_Suc: "s \<le> e \<Longrightarrow> steps s e = Suc (steps (s + msPerDay) e)"
proof -
  assume le: "s \<le> e"
  show ?thesis
  proof (cases "s + msPerDay \<le> e")
    case True
    have "(e - s) div msPerDay = (e - (s + msPerDay)) div msPerDay + 1"
      by (simp add: msPerDay_def)
    with True le show ?thesis by (simp add: steps_def msPerDay_def)
  next
    case False
    then have "(e - s) div msPerDay = 0" using le by (simp add: msPerDay_def)
    with le False show ?thesis by (simp add: steps_def)
  qed
qed

lemma set_foldl_set_add: "set (foldl set_add ys xs) = set ys \<union> set xs"
  by (induction xs arbitrary: ys) (auto simp: set_add_def)

lemma distinct_foldl_set_add: "distinct ys \<Longrightarrow> distinct (foldl set_add ys xs)"
  by (induction xs arbitrary: ys) (auto simp: set_add_def)

lemma MakeDate_next: "MakeDate (Day t + 1) (TimeWithinDay t) = t + msPerDay"
  by (simp add: MakeDate_def Day_def TimeWithinDay_def algebra_simps)

text \<open>Where the host keeps the offset \<open>c\<close>, a step adds one day to the time value.\<close>

lemma nextDay_steady:
  assumes "steady_offset hz c s0 e" "s0 \<le> s" "s \<le> e"
  shows "nextDay hz (Time s) = TimeClip (s + msPerDay)"
    and "getFullYear hz (Time s) = Some (YearFromTime (LocalTime c s))"
proof -
  from assms have u: "LocalTZA hz s True = c"
    unfolding steady_offset_def by blast
  from assms have "s0 + c + msPerDay \<le> s + c + msPerDay \<and> s + c + msPerDay \<le> e + c + msPerDay"
    by simp
  with assms(1) have l: "LocalTZA hz (s + c + msPerDay) False = c"
    unfolding steady_offset_def by blast
  show "nextDay hz (Time s) = TimeClip (s + msPerDay)"
    by (simp add: nextDay_def u LocalTime_def MakeDate_next Let_def l)
  show "getFullYear hz (Time s) = Some (YearFromTime (LocalTime c s))"
    by (simp add: getFullYear_def u)
qed

lemma yearsLoop_unfold:
  "yearsLoop hz (Time s) (Time e) ys =
     (if s \<le> e then
        (case getFullYear hz (Time s) of
           None \<Rightarrow> ys
         | Some y \<Rightarrow> yearsLoop hz (nextDay hz (Time s)) (Time e) (set_add ys y))
      else ys)"
  by (subst yearsLoop.simps) (simp add: date_le_def)

lemma yearsLoop_Invalid: "yearsLoop hz Invalid_Date e ys = ys"
  by (subst yearsLoop.simps) (simp add: date_le_def)

text \<open>
  On a host that keeps its offset over the range, the walk from a valid start visits
  the local days of \<open>s\<close>, \<open>s\<close> + 1 day, ... while the walking time value is at most \<open>e\<close>,
  and adds the year of each.
\<close>

lemma yearsLoop_fold:
  "e \<le> maxTime \<Longrightarrow> - maxTime \<le> s \<Longrightarrow> steady_offset hz c s0 e \<Longrightarrow> s0 \<le> s \<Longrightarrow>
   steps s e = n \<Longrightarrow>
   yearsLoop hz (Time s) (Time e) ys =
     foldl set_add ys (map (\<lambda>k. YearFromTime (LocalTime c s + int k * msPerDay)) [0..<n])"
proof (induction n arbitrary: s ys)
  case 0
  then have "\<not> s \<le> e" by (simp add: steps_def split: if_splits)
  then show ?case by (subst yearsLoop_unfold) simp
next
  case (Suc n)
  then have le: "s \<le> e" by (simp add: steps_def split: if_splits)
  with Suc.prems have n: "steps (s + msPerDay) e = n" by (simp add: steps_Suc)
  note st = nextDay_steady [OF Suc.prems(3) Suc.prems(4) le]
  let ?y = "YearFromTime (LocalTime c s)"
  have shift: "map (\<lambda>k. YearFromTime (LocalTime c s + int k * msPerDay)) [0..<Suc n]
      = ?y # map (\<lambda>k. YearFromTime (LocalTime c (s + msPerDay) + int k * msPerDay)) [0..<n]"
    by (simp add: upt_conv_Cons map_Suc_upt [symmetric] LocalTime_def algebra_simps del: upt_Suc)
  show ?case
  proof (cases "s + msPerDay \<le> maxTime")
    case True
    with Suc.prems have clip: "TimeClip (s + msPerDay) = Time (s + msPerDay)"
      by (simp add: TimeClip_def msPerDay_def maxTime_def)
    have "- maxTime \<le> s + msPerDay" using Suc.prems by (simp add: msPerDay_def)
    moreover have "s0 \<le> s + msPerDay" using Suc.prems by (simp add: msPerDay_def)
    ultimately have "yearsLoop hz (Time (s + msPerDay)) (Time e) (set_add ys ?y) =
        foldl set_add (set_add ys ?y)
          (map (\<lambda>k. YearFromTime (LocalTime c (s + msPerDay) + int k * msPerDay)) [0..<n])"
      using Suc.IH [OF Suc.prems(1) _ Suc.prems(3) _ n] by blast
    then show ?thesis
      using le by (subst yearsLoop_unfold) (simp add: st clip shift del: upt_Suc)
  next
    case False
    with Suc.prems have clip: "TimeClip (s + msPerDay) = Invalid_Date"
      by (simp add: TimeClip_def msPerDay_def maxTime_def)
    from False Suc.prems have "\<not> s + msPerDay \<le> e" by simp
    with n have "n = 0" by (simp add: steps_def)
    then show ?thesis
      using le by (subst yearsLoop_unfold) (simp add: st clip yearsLoop_Invalid)
  qed
qed

lemma Day_add_days: "Day (t + int k * msPerDay) = Day t + int k"
  by (simp add: Day_def msPerDay_def)

lemma div_diff_aligned:
  fixes a b D :: int
  assumes "0 < D" "a mod D \<le> b mod D"
  shows "(b - a) div D = b div D - a div D"
proof -
  define r where "r = b mod D - a mod D"
  have r: "0 \<le> r" "r < D"
    using assms pos_mod_bound [of D b] pos_mod_sign [of D a] unfolding r_def by linarith+
  have "b - a = (b div D - a div D) * D + r"
    by (simp add: r_def algebra_simps)
  then have "(b - a) div D = (b div D - a div D) + r div D"
    using assms(1) by simp
  with r show ?thesis by (simp add: div_pos_pos_trivial)
qed

lemma steps_aligned:
  assumes "s \<le> e" "TimeWithinDay (LocalTime tza s) \<le> TimeWithinDay (LocalTime tza e)"
  shows "int (steps s e) = Day (LocalTime tza e) - Day (LocalTime tza s) + 1"
proof -
  have "(LocalTime tza e - LocalTime tza s) div msPerDay
        = LocalTime tza e div msPerDay - LocalTime tza s div msPerDay"
    using assms(2) by (intro div_diff_aligned) (simp_all add: TimeWithinDay_def msPerDay_def)
  moreover have "LocalTime tza e - LocalTime tza s = e - s" by (simp add: LocalTime_def)
  moreover have "0 \<le> (e - s) div msPerDay" using assms(1) by (simp add: msPerDay_def)
  ultimately show ?thesis using assms(1) by (simp add: steps_def Day_def)
qed

lemma image_days:
  assumes "int n = hi - lo + 1"
  shows "(\<lambda>k. f (lo + int k)) ` {0..<n} = f ` {lo..hi}"
proof -
  have "(\<lambda>k. lo + int k) ` {0..<n} = {lo..hi}"
  proof (intro set_eqI iffI)
    fix x assume "x \<in> (\<lambda>k. lo + int k) ` {0..<n}"
    then show "x \<in> {lo..hi}" using assms by auto
  next
    fix x assume x: "x \<in> {lo..hi}"
    then have "x = lo + int (nat (x - lo))" "nat (x - lo) < n" using assms by auto
    then show "x \<in> (\<lambda>k. lo + int k) ` {0..<n}" by (metis atLeastLessThan_iff imageI le0)
  qed
  then have "f ` ((\<lambda>k. lo + int k) ` {0..<n}) = f ` {lo..hi}" by simp
  then show ?thesis by (simp add: image_image)
qed

text \<open>
  What the walk does where the host zone changes its offset: on America/New_York the
  step from 2024-03-09 02:30 lands on 03:30 the next day, the time 02:30 being skipped
  there; the walk keeps 03:30 from then on, passes the end 2025-01-01 03:00 before it
  reaches that day, and the year 2025 is missing, although the start is earlier in its
  day than the end.
\<close>

lemma getYearsInRange_daylight_saving_gap:
  "nextDay new_york_2024 (Time 1709969400000) = Time 1710055800000
   \<and> getYearsInRange new_york_2024 (Some (Time 1709969400000)) (Some (Time 1735718400000))
       = [2024]"
proof -
  have 1: "nextDay new_york_2024 (Time 1709969400000) = Time 1710055800000" by code_simp
  have 2: "getYearsInRange new_york_2024 (Some (Time 1709969400000))
             (Some (Time 1735718400000)) = [2024]"
    by code_simp
  from 1 2 show ?thesis by simp
qed

text \<open>
  Over the same change the date list holds the three local midnights from 2024-03-09 to
  2024-03-11, 23 hours apart at the change.
\<close>

lemma allDates_daylight_saving:
  "allDates new_york_2024 (Some (Time 1709960400000)) (Some (Time 1710129600000))
     = [Time 1709960400000, Time 1710046800000, Time 1710129600000]"
  by code_simp

text \<open>
  C7, as amended. For two valid dates with \<open>start \<le> end\<close>, on a host whose zone keeps one
  UTC offset from \<open>start\<close> to one day past \<open>end\<close>, and where the local time of day of
  \<open>start\<close> is not later than that of \<open>end\<close> (the day-aligned ranges of the calendar),
  \<open>getYearsInRange\<close> returns, without repetition, exactly the calendar years of the local
  days from the day of \<open>start\<close> to the day of \<open>end\<close>; in particular the year of \<open>end\<close>.
\<close>

theorem getYearsInRange_day_aligned:
  assumes "valid_date (Time s)" "valid_date (Time e)" "s \<le> e"
    and "steady_offset hz c s e"
    and "TimeWithinDay (LocalTime c s) \<le> TimeWithinDay (LocalTime c e)"
  shows "set (getYearsInRange hz (Some (Time s)) (Some (Time e)))
           = (\<lambda>n. fst (civil n)) ` {Day (LocalTime c s) .. Day (LocalTime c e)}
         \<and> distinct (getYearsInRange hz (Some (Time s)) (Some (Time e)))
         \<and> YearFromTime (LocalTime c e)
             \<in> set (getYearsInRange hz (Some (Time s)) (Some (Time e)))"
proof -
  have b: "e \<le> maxTime" "- maxTime \<le> s" using assms(1,2) by (simp_all add: valid_date_def)
  have eq: "getYearsInRange hz (Some (Time s)) (Some (Time e)) =
     foldl set_add [] (map (\<lambda>k. YearFromTime (LocalTime c s + int k * msPerDay)) [0..<steps s e])"
    by (simp add: getYearsInRange_def yearsLoop_fold [OF b assms(4) order_refl refl])
  have "set (getYearsInRange hz (Some (Time s)) (Some (Time e)))
      = (\<lambda>k. fst (civil (Day (LocalTime c s) + int k))) ` {0..<steps s e}"
    by (simp add: eq set_foldl_set_add YearFromTime_def Day_add_days)
  also have "\<dots> = (\<lambda>n. fst (civil n)) ` {Day (LocalTime c s) .. Day (LocalTime c e)}"
    by (rule image_days) (rule steps_aligned [OF assms(3,5)])
  finally have 1: "set (getYearsInRange hz (Some (Time s)) (Some (Time e)))
           = (\<lambda>n. fst (civil n)) ` {Day (LocalTime c s) .. Day (LocalTime c e)}" .
  have 2: "distinct (getYearsInRange hz (Some (Time s)) (Some (Time e)))"
    by (simp add: eq distinct_foldl_set_add)
  have "Day (LocalTime c s) \<le> Day (LocalTime c e)"
    using assms(3) by (simp add: Day_def LocalTime_def msPerDay_def zdiv_mono1)
  then have 3: "YearFromTime (LocalTime c e)
      \<in> set (getYearsInRange hz (Some (Time s)) (Some (Time e)))"
    unfolding 1 YearFromTime_def by simp
  from 1 2 3 show ?thesis by simp
qed

text \<open>
  The range from local midnight of 2024-12-30 to local midnight of 2025-01-02 on
  America/New_York, in winter time throughout (UTC-5).
\<close>

theorem getYearsInRange_day_aligned_witness:
  "valid_date (Time 1735534800000) \<and> valid_date (Time 1735794000000)
   \<and> (1735534800000 :: int) \<le> 1735794000000
   \<and> steady_offset new_york_2024 (- 18000000) 1735534800000 1735794000000
   \<and> TimeWithinDay (LocalTime (- 18000000) 1735534800000)
       \<le> TimeWithinDay (LocalTime (- 18000000) 1735794000000)
   \<and> getYearsInRange new_york_2024 (Some (Time 1735534800000)) (Some (Time 1735794000000))
       = [2024, 2025]
   \<and> (set (getYearsInRange new_york_2024 (Some (Time 1735534800000)) (Some (Time 1735794000000)))
           = (\<lambda>n. fst (civil n)) ` {Day (LocalTime (- 18000000) 1735534800000)
                                      .. Day (LocalTime (- 18000000) 1735794000000)}
         \<and> distinct (getYearsInRange new_york_2024 (Some (Time 1735534800000))
                        (Some (Time 1735794000000)))
         \<and> YearFromTime (LocalTime (- 18000000) 1735794000000)
             \<in> set (getYearsInRange new_york_2024 (Some (Time 1735534800000))
                       (Some (Time 1735794000000))))"
proof -
  have h1: "valid_date (Time 1735534800000)" by (simp add: valid_date_def maxTime_def)
  have h2: "valid_date (Time 1735794000000)" by (simp add: valid_date_def maxTime_def)
  have h3: "(1735534800000 :: int) \<le> 1735794000000" by simp
  have h4: "steady_offset new_york_2024 (- 18000000) 1735534800000 1735794000000"
    by (simp add: steady_offset_def LocalTZA_def new_york_2024.rep_eq msPerDay_def)
  have h5: "TimeWithinDay (LocalTime (- 18000000) 1735534800000)
       \<le> TimeWithinDay (LocalTime (- 18000000) 1735794000000)"
    by (simp add: TimeWithinDay_def LocalTime_def msPerDay_def)
  have ev: "getYearsInRange new_york_2024 (Some (Time 1735534800000))
              (Some (Time 1735794000000)) = [2024, 2025]"
    by code_simp
  from getYearsInRange_day_aligned [OF h1 h2 h3 h4 h5] h1 h2 h3 h4 h5 ev show ?thesis by blast
qed

text \<open>
  C7 as stated fails when \<open>start\<close> is later in its day than \<open>end\<close>: from 2024-12-31T12:00Z to
  2025-01-01T00:00Z (host at UTC) the walk stops after one step and the year of \<open>end\<close>,
  2025, is missing.
\<close>

theorem getYearsInRange_misses_end_year:
  "valid_date (Time 1735646400000) \<and> valid_date (Time 1735689600000)
   \<and> (1735646400000 :: int) \<le> 1735689600000
   \<and> getYearsInRange (fixed_zone 0) (Some (Time 1735646400000)) (Some (Time 1735689600000))
       = [2024]
   \<and> YearFromTime (LocalTime 0 1735689600000) = 2025
   \<and> YearFromTime (LocalTime 0 1735689600000)
        \<notin> set (getYearsInRange (fixed_zone 0) (Some (Time 1735646400000))
                  (Some (Time 1735689600000)))"
proof -
  have v: "valid_date (Time 1735646400000)" "valid_date (Time 1735689600000)"
    by (simp_all add: valid_date_def maxTime_def)
  have r: "getYearsInRange (fixed_zone 0) (Some (Time 1735646400000))
             (Some (Time 1735689600000)) = [2024]"
    by code_simp
  have y: "YearFromTime (LocalTime 0 1735689600000) = 2025"
    by code_simp
  show ?thesis using v by (simp add: r y)
qed

section \<open>Properties: the participant registry\<close>

lemma handleAdd_present:
  "p_id p \<in> p_id ` set ps \<Longrightarrow> handleAddParticipant ps p = ps"
  by (auto simp: handleAddParticipant_def list_ex_iff)

lemma handleRemove_absent:
  "i \<notin> p_id ` set ps \<Longrightarrow> handleRemoveParticipant ps i = ps"
  by (induction ps) (auto simp: handleRemoveParticipant_def)

lemma handleAdd_twice:
  "handleAddParticipant (handleAddParticipant ps p) p = handleAddParticipant ps p"
  by (auto simp: handleAddParticipant_def list_ex_iff)

lemma handleRemove_twice:
  "handleRemoveParticipant (handleRemoveParticipant ps i) i = handleRemoveParticipant ps i"
  by (simp add: handleRemoveParticipant_def)

lemma handleAdd_distinct:
  "distinct (map p_id ps) \<Longrightarrow> distinct (map p_id (handleAddParticipant ps p))"
  by (auto simp: handleAddParticipant_def list_ex_iff)

lemma handleRemove_distinct:
  "distinct (map p_id ps) \<Longrightarrow> distinct (map p_id (handleRemoveParticipant ps i))"
  by (simp add: handleRemoveParticipant_def distinct_map_filter)

lemma registry_step_distinct:
  "distinct (map p_id ps) \<Longrightarrow> distinct (map p_id (registry_step ps a))"
  by (cases a) (simp_all add: handleAdd_distinct handleRemove_distinct)

lemma registry_fold_distinct:
  "distinct (map p_id ps) \<Longrightarrow> distinct (map p_id (foldl registry_step ps acts))"
  by (induction acts arbitrary: ps) (simp_all add: registry_step_distinct)

text \<open>
  C9. Adding a participant whose id is present leaves the list unchanged, removing an
  absent id leaves it unchanged, a repeated add or remove changes nothing the second
  time, and after any sequence of adds, removes and resets from the empty registry the
  ids in the list are pairwise different.
\<close>

theorem registry_idempotent_one_per_id:
  "(p_id p \<in> p_id ` set ps \<longrightarrow> handleAddParticipant ps p = ps)
   \<and> (i \<notin> p_id ` set ps \<longrightarrow> handleRemoveParticipant ps i = ps)
   \<and> handleAddParticipant (handleAddParticipant ps p) p = handleAddParticipant ps p
   \<and> handleRemoveParticipant (handleRemoveParticipant ps i) i = handleRemoveParticipant ps i
   \<and> distinct (map p_id (registry_run acts))"
  using handleAdd_present [of p ps] handleRemove_absent [of i ps]
    registry_fold_distinct [of "[]" acts]
  by (simp add: handleAdd_twice handleRemove_twice registry_run_def)

theorem registry_idempotent_one_per_id_witness:
  "p_id tokyo \<in> p_id ` set [delhi, tokyo]
   \<and> handleAddParticipant [delhi, tokyo] tokyo = [delhi, tokyo]
   \<and> ''0,0'' \<notin> p_id ` set [delhi, tokyo]
   \<and> handleRemoveParticipant [delhi, tokyo] ''0,0'' = [delhi, tokyo]
   \<and> distinct (map p_id (registry_run [Add tokyo, Add delhi, Add tokyo, Remove ''29,77'']))
   \<and> registry_run [Add tokyo, Add delhi, Add tokyo, Remove ''29,77''] = [tokyo]"
proof -
  have h1: "p_id tokyo \<in> p_id ` set [delhi, tokyo]" by simp
  have h2: "''0,0'' \<notin> p_id ` set [delhi, tokyo]" by (simp add: delhi_def tokyo_def)
  have r: "registry_run [Add tokyo, Add delhi, Add tokyo, Remove ''29,77''] = [tokyo]"
    by (simp add: registry_run_def handleAddParticipant_def handleRemoveParticipant_def
        delhi_def tokyo_def)
  from registry_idempotent_one_per_id
         [of tokyo "[delhi, tokyo]" "''0,0''" "[Add tokyo, Add delhi, Add tokyo, Remove ''29,77'']"]
       h1 h2 r
  show ?thesis by blast
qed

section \<open>Properties: common awake hours\<close>

lemma hoursLoop_filter:
  "0 \<le> h \<Longrightarrow> nat (24 - h) = n \<Longrightarrow>
   hoursLoop lib ps a b date z h hours =
     hours @ filter (\<lambda>k. list_all (awake lib a b (display_instant lib date z k)) ps) [h..23]"
proof (induction n arbitrary: h hours)
  case 0
  then have "\<not> h < 24" by simp
  then show ?case by (subst hoursLoop.simps) simp
next
  case (Suc n)
  then have lt: "h < 24" by simp
  have "0 \<le> h + 1" "nat (24 - (h + 1)) = n" using Suc.prems by simp_all
  note IH = Suc.IH [OF this]
  have up: "[h..23] = h # [h + 1..23]" using lt by (simp add: upto_rec1)
  show ?case using lt by (subst hoursLoop.simps) (simp add: IH up Let_def)
qed

lemma getCommonAwakeHours_filter:
  "getCommonAwakeHours lib ps a b date z =
     filter (\<lambda>k. list_all (awake lib a b (display_instant lib date z k)) ps) [0..23]"
  by (simp add: getCommonAwakeHours_def hoursLoop_filter [OF _ refl])

lemma upto_0_23:
  "[0..23::int] = [0,1,2,3,4,5,6,7,8,9,10,11,12,13,14,15,16,17,18,19,20,21,22,23]"
  by (simp add: upto_rec1)

lemma awake_iff:
  "awake lib a b dt p \<longleftrightarrow>
     (\<exists>hour. get_hour lib (tz lib dt (split_first (p_timezone p))) = Some hour
            \<and> a \<le> hour \<and> hour < b)"
  by (simp add: awake_def Let_def split: option.splits)

text \<open>
  C3. With no participant \<open>getCommonAwakeHours\<close> returns all 24 hours, for every date,
  display zone and awake window, while the progress bar beside it, which tests that
  there is a participant first, marks no hour.
\<close>

theorem getCommonAwakeHours_no_participants:
  "getCommonAwakeHours lib [] awakeStart awakeEnd date z
     = [0,1,2,3,4,5,6,7,8,9,10,11,12,13,14,15,16,17,18,19,20,21,22,23]
   \<and> barAllAwake lib [] awakeStart awakeEnd date z h = False"
  by (simp add: getCommonAwakeHours_filter upto_0_23 barAllAwake_def)

theorem getCommonAwakeHours_no_participants_witness:
  "getCommonAwakeHours (fixed_lib 0 sample_offsets) [] 8 22 (Time july4_2024) ''UTC''
     = [0,1,2,3,4,5,6,7,8,9,10,11,12,13,14,15,16,17,18,19,20,21,22,23]
   \<and> getCommonAwakeHours (fixed_lib 0 sample_offsets) [] 8 22 (Time july4_2024) ''UTC'' \<noteq> []
   \<and> barAllAwake (fixed_lib 0 sample_offsets) [] 8 22 (Time july4_2024) ''UTC'' 9 = False"
  using getCommonAwakeHours_no_participants
          [of "fixed_lib 0 sample_offsets" 8 22 "Time july4_2024" "''UTC''" 9]
  by simp




















text \<open>
  C10. With at least one participant and \<open>awakeEnd \<le> awakeStart\<close> no hour qualifies: the
  window does not wrap past midnight.
\<close>

theorem getCommonAwakeHours_empty_window:
  assumes "selectedParticipants \<noteq> []" "awakeEnd \<le> awakeStart"
  shows "getCommonAwakeHours lib selectedParticipants awakeStart awakeEnd date z = []"
proof -
  have "\<not> awake lib awakeStart awakeEnd dt p" for dt p
    using assms(2) by (auto simp: awake_iff)
  then have "\<not> list_all (awake lib awakeStart awakeEnd dt) selectedParticipants" for dt
    using assms(1) by (cases selectedParticipants) simp_all
  then show ?thesis by (simp add: getCommonAwakeHours_filter)
qed

theorem getCommonAwakeHours_empty_window_witness:
  "[tokyo] \<noteq> [] \<and> (6::int) \<le> 22
   \<and> getCommonAwakeHours (fixed_lib 0 sample_offsets) [tokyo] 22 6 (Time july4_2024) ''UTC'' = []"
proof -
  have ne: "[tokyo] \<noteq> []" by simp
  have le: "(6::int) \<le> 22" by simp
  from getCommonAwakeHours_empty_window
         [OF ne le, of "fixed_lib 0 sample_offsets" "Time july4_2024" "''UTC''"] ne le
  show ?thesis by blast
qed

section \<open>Properties: the classification of a date\<close>

lemma every_e_pure: "every_e (\<lambda>x. Inr (g x)) xs = Inr (list_all g xs)"
  by (induction xs) simp_all

lemma isHoliday_Time:
  "toISOString (Time t) = Inr s \<Longrightarrow>
   isHoliday hbc codes (Time t)
     = Inr (\<forall>code \<in> set codes. \<exists>h \<in> set (holidaysOf hbc code). h_date h = take 10 s)"
  by (simp add: isHoliday_def Let_def list_all_iff list_ex_iff)

lemma isAllPublicHoliday_iff:
  "isAllPublicHoliday tza hbc codes d
     \<longleftrightarrow> (\<forall>code \<in> set codes. \<exists>h \<in> set (holidaysOf hbc code).
            h_date h = moment_format_ymd tza d \<and> h_type h = ''Public'')"
  by (simp add: isAllPublicHoliday_def Let_def list_all_iff list_ex_iff)

lemma filter_e_Cons_Inr:
  "f x = Inr b \<Longrightarrow> filter_e f xs = Inr zs \<Longrightarrow>
   filter_e f (x # xs) = Inr (if b then x # zs else zs)"
  by simp

lemma filter_e_Cons_dest:
  assumes "filter_e f (x # xs) = Inr ys"
  obtains b zs where "f x = Inr b" "filter_e f xs = Inr zs" "ys = (if b then x # zs else zs)"
proof -
  from assms obtain b where b: "f x = Inr b"
    by (cases "f x") simp_all
  with assms obtain zs where zs: "filter_e f xs = Inr zs"
    by (cases "filter_e f xs") simp_all
  from assms b zs have "ys = (if b then x # zs else zs)" by simp
  with b zs that show thesis by blast
qed

lemma filter_e_set:
  "filter_e f xs = Inr ys \<Longrightarrow> set ys = {x \<in> set xs. f x = Inr True}"
proof (induction xs arbitrary: ys)
  case Nil
  then show ?case by simp
next
  case (Cons x xs)
  from Cons.prems obtain b zs where b: "f x = Inr b" and zs: "filter_e f xs = Inr zs"
    and ys: "ys = (if b then x # zs else zs)"
    by (rule filter_e_Cons_dest)
  from Cons.IH [OF zs] have IH: "set zs = {x \<in> set xs. f x = Inr True}" .
  have "{y \<in> set (x # xs). f y = Inr True}
        = (if b then insert x {y \<in> set xs. f y = Inr True} else {y \<in> set xs. f y = Inr True})"
    using b by (cases b) auto
  then show ?case by (simp add: ys IH)
qed

lemma filterEvents_holiday_Cons:
  "filterEvents tza hbc codes ''holiday'' (d # ds) =
     (case filterEvents tza hbc codes ''holiday'' ds of
        Inl err \<Rightarrow> Inl err
      | Inr evs \<Rightarrow>
          Inr (if isAllPublicHoliday tza hbc codes d
               then \<lparr>ev_title = ''All: Holiday'', ev_start = d, ev_end = d,
                      ev_allDay = True, ev_resource_type = ''filter'',
                      ev_resource_filterType = ''holiday''\<rparr> # evs
               else evs))"
  by (cases "filterEvents tza hbc codes ''holiday'' ds")
     (simp_all add: Let_def filter_title_def)

lemma filterEvents_holiday:
  "\<exists>evs. filterEvents tza hbc codes ''holiday'' ds = Inr evs
         \<and> map ev_start evs = filter (isAllPublicHoliday tza hbc codes) ds"
proof (induction ds)
  case Nil
  show ?case by simp
next
  case (Cons d ds)
  then obtain evs where "filterEvents tza hbc codes ''holiday'' ds = Inr evs"
    "map ev_start evs = filter (isAllPublicHoliday tza hbc codes) ds" by blast
  then show ?case by (simp only: filterEvents_holiday_Cons) simp
qed

text \<open>
  Under the holiday filter the highlighted dates are those that pass \<open>isHoliday\<close> and then
  the \<open>Public\<close> check.
\<close>

lemma highlighted_holiday:
  assumes "highlighted tza hbc codes ''holiday'' dates = Inr ds"
  shows "set ds = {d \<in> set dates. isHoliday hbc codes d = Inr True
                                 \<and> isAllPublicHoliday tza hbc codes d}"
proof -
  from assms obtain fs where fs: "filteredDates tza hbc codes ''holiday'' dates = Inr fs"
    by (auto simp: highlighted_def split: sum.splits)
  then have "filter_e (isHoliday hbc codes) dates = Inr fs"
    by (simp add: filteredDates_def)
  from filter_e_set [OF this]
  have sfs: "set fs = {d \<in> set dates. isHoliday hbc codes d = Inr True}" .
  obtain evs where evs: "filterEvents tza hbc codes ''holiday'' fs = Inr evs"
      "map ev_start evs = filter (isAllPublicHoliday tza hbc codes) fs"
    using filterEvents_holiday by blast
  with assms fs have "ds = filter (isAllPublicHoliday tza hbc codes) fs"
    by (simp add: highlighted_def)
  with sfs show ?thesis by auto
qed

text \<open>
  C1, as amended. With no country code \<open>isHoliday\<close> is true at every valid date, and so is
  the \<open>Public\<close> check behind it: \<open>every\<close> over the empty list holds.
\<close>

theorem isHoliday_no_countries:
  "isHoliday hbc [] (Time t) = Inr True \<and> isAllPublicHoliday tza hbc [] d"
  by (simp add: isHoliday_def isAllPublicHoliday_def toISOString_def Let_def)

theorem isHoliday_no_countries_witness:
  "isHoliday us_holidays [] (Time july4_2024) = Inr True
   \<and> isAllPublicHoliday 0 us_holidays [] (Time july4_2024)"
  using isHoliday_no_countries [of us_holidays july4_2024 0 "Time july4_2024"]
  by simp

text \<open>
  C1 as stated fails: a participant placed on the open sea has no country code, the code
  list is empty, and 2024-07-04 is classified and highlighted as a group holiday.
\<close>

theorem isHoliday_no_countries_counterexample:
  "countryCodes [mid_atlantic] = []
   \<and> isHoliday Map.empty (countryCodes [mid_atlantic]) (Time july4_2024) = Inr True
   \<and> isHoliday Map.empty (countryCodes [mid_atlantic]) (Time july4_2024) \<noteq> Inr False
   \<and> highlighted 0 Map.empty (countryCodes [mid_atlantic]) ''holiday'' [Time july4_2024]
       = Inr [Time july4_2024]"
proof -
  have c: "countryCodes [mid_atlantic] = []"
    by (simp add: countryCodes_def mid_atlantic_def set_from_def)
  have h: "isHoliday Map.empty [] (Time july4_2024) = Inr True"
    by (simp add: isHoliday_def toISOString_def Let_def)
  have g: "highlighted 0 Map.empty [] ''holiday'' [Time july4_2024] = Inr [Time july4_2024]"
    by (simp add: highlighted_def filteredDates_def h isAllPublicHoliday_def Let_def)
  show ?thesis by (simp add: c h g)
qed

text \<open>
  C2, as amended. For a non-empty list of country codes and a valid date whose
  \<open>YYYY-MM-DD\<close> form is the same in UTC and on the host: \<open>isHoliday\<close> is true exactly when
  every country has a cached record, of any type, dated with that form; the check behind
  the \<open>All: Holiday\<close> highlight is true exactly when every country has a cached record
  of type \<open>Public\<close> dated with that form; and the date is highlighted under the holiday
  filter exactly when it is in the view and that check holds, so that records of other
  types never make a date a highlighted group holiday.
\<close>

theorem holiday_filter_and_public_gate:
  assumes "codes \<noteq> []" "toISOString (Time t) = Inr s"
    and "take 10 s = moment_format_ymd tza (Time t)"
  shows "isHoliday hbc codes (Time t)
           = Inr (\<forall>code \<in> set codes. \<exists>h \<in> set (holidaysOf hbc code).
                    h_date h = moment_format_ymd tza (Time t))
    \<and> (isAllPublicHoliday tza hbc codes (Time t)
         \<longleftrightarrow> (\<forall>code \<in> set codes. \<exists>h \<in> set (holidaysOf hbc code).
                h_date h = moment_format_ymd tza (Time t) \<and> h_type h = ''Public''))
    \<and> (highlighted tza hbc codes ''holiday'' dates = Inr ds \<longrightarrow>
         (Time t \<in> set ds \<longleftrightarrow>
            Time t \<in> set dates
            \<and> (\<forall>code \<in> set codes. \<exists>h \<in> set (holidaysOf hbc code).
                  h_date h = moment_format_ymd tza (Time t) \<and> h_type h = ''Public'')))"
proof -
  have 1: "isHoliday hbc codes (Time t)
           = Inr (\<forall>code \<in> set codes. \<exists>h \<in> set (holidaysOf hbc code).
                    h_date h = moment_format_ymd tza (Time t))"
    using isHoliday_Time [OF assms(2), of hbc codes] by (simp add: assms(3))
  note 2 = isAllPublicHoliday_iff [of tza hbc codes "Time t"]
  have 3: "highlighted tza hbc codes ''holiday'' dates = Inr ds \<longrightarrow>
         (Time t \<in> set ds \<longleftrightarrow>
            Time t \<in> set dates
            \<and> (\<forall>code \<in> set codes. \<exists>h \<in> set (holidaysOf hbc code).
                  h_date h = moment_format_ymd tza (Time t) \<and> h_type h = ''Public''))"
  proof
    assume h: "highlighted tza hbc codes ''holiday'' dates = Inr ds"
    have "isAllPublicHoliday tza hbc codes (Time t) \<Longrightarrow> isHoliday hbc codes (Time t) = Inr True"
      unfolding 1 2 by auto
    with highlighted_holiday [OF h] 2 show "Time t \<in> set ds \<longleftrightarrow>
            Time t \<in> set dates
            \<and> (\<forall>code \<in> set codes. \<exists>h \<in> set (holidaysOf hbc code).
                  h_date h = moment_format_ymd tza (Time t) \<and> h_type h = ''Public'')"
      by auto
  qed
  from 1 2 3 show ?thesis by blast
qed

text \<open>The United States alone, on 2024-07-04, on a host at UTC.\<close>

theorem holiday_filter_and_public_gate_witness:
  "[''US''] \<noteq> []
   \<and> toISOString (Time july4_2024) = Inr ''2024-07-04T00:00:00.000Z''
   \<and> take 10 ''2024-07-04T00:00:00.000Z'' = moment_format_ymd 0 (Time july4_2024)
   \<and> highlighted 0 us_holidays [''US''] ''holiday'' [Time july4_2024] = Inr [Time july4_2024]
   \<and> isHoliday us_holidays [''US''] (Time july4_2024)
       = Inr (\<forall>code \<in> set [''US'']. \<exists>h \<in> set (holidaysOf us_holidays code).
                h_date h = moment_format_ymd 0 (Time july4_2024))
   \<and> (isAllPublicHoliday 0 us_holidays [''US''] (Time july4_2024)
        = (\<forall>code \<in> set [''US'']. \<exists>h \<in> set (holidaysOf us_holidays code).
             h_date h = moment_format_ymd 0 (Time july4_2024) \<and> h_type h = ''Public''))
   \<and> ((Time july4_2024 \<in> set [Time july4_2024])
        = (Time july4_2024 \<in> set [Time july4_2024]
           \<and> (\<forall>code \<in> set [''US'']. \<exists>h \<in> set (holidaysOf us_holidays code).
                 h_date h = moment_format_ymd 0 (Time july4_2024) \<and> h_type h = ''Public'')))"
proof -
  have h1: "[''US''] \<noteq> []" by simp
  have h2: "toISOString (Time july4_2024) = Inr ''2024-07-04T00:00:00.000Z''" by code_simp
  have h3: "take 10 ''2024-07-04T00:00:00.000Z'' = moment_format_ymd 0 (Time july4_2024)"
    by code_simp
  have h4: "highlighted 0 us_holidays [''US''] ''holiday'' [Time july4_2024]
              = Inr [Time july4_2024]"
    by code_simp
  from holiday_filter_and_public_gate
         [OF h1 h2 h3, of us_holidays "[Time july4_2024]" "[Time july4_2024]"] h1 h2 h3 h4
  show ?thesis by blast
qed

text \<open>
  C2 as stated fails for \<open>isHoliday\<close>: one country whose only record on the date is an
  observance, not of type \<open>Public\<close>, makes it true.
\<close>

theorem isHoliday_non_public_counterexample:
  "[''JP''] \<noteq> []
   \<and> isHoliday jp_observance [''JP''] (Time july4_2024) = Inr True
   \<and> \<not> list_ex (\<lambda>h. h_type h = ''Public'') (holidaysOf jp_observance ''JP'')"
proof -
  have 1: "isHoliday jp_observance [''JP''] (Time july4_2024) = Inr True" by code_simp
  have 2: "\<not> list_ex (\<lambda>h. h_type h = ''Public'') (holidaysOf jp_observance ''JP'')"
    by (simp add: holidaysOf_def jp_observance_def observance_day_def)
  show ?thesis using 1 2 by simp
qed

text \<open>
  C5, as amended. For a non-empty list of country codes and a valid date whose
  \<open>YYYY-MM-DD\<close> form is the same in UTC and on the host, \<open>isWorkday\<close> holds exactly when the
  date is not a weekend and no country has a cached record, of any type, dated with that
  form: a holiday in one country is enough to make the date no common workday.
\<close>

theorem isWorkday_all_countries:
  assumes "codes \<noteq> []" "toISOString (Time t) = Inr s"
    and "take 10 s = moment_format_ymd tza (Time t)"
  shows "isWorkday tza hbc codes (Time t)
     = Inr (\<not> isWeekend tza (Time t)
            \<and> (\<forall>code \<in> set codes.
                  \<not> (\<exists>h \<in> set (holidaysOf hbc code).
                        h_date h = moment_format_ymd tza (Time t))))"
proof -
  let ?ymd = "moment_format_ymd tza (Time t)"
  have "isWorkday tza hbc codes (Time t)
     = Inr (list_all (\<lambda>code. \<not> list_ex (\<lambda>h. h_date h = ?ymd) (holidaysOf hbc code)
                            \<and> \<not> isWeekend tza (Time t)) codes)"
    by (simp add: isWorkday_def assms(2) Let_def every_e_pure assms(3))
  also have "list_all (\<lambda>code. \<not> list_ex (\<lambda>h. h_date h = ?ymd) (holidaysOf hbc code)
                            \<and> \<not> isWeekend tza (Time t)) codes
     \<longleftrightarrow> (\<not> isWeekend tza (Time t)
            \<and> (\<forall>code \<in> set codes. \<not> (\<exists>h \<in> set (holidaysOf hbc code). h_date h = ?ymd)))"
    using assms(1) by (cases codes) (auto simp: list_all_iff list_ex_iff)
  finally show ?thesis .
qed

theorem isWorkday_all_countries_witness:
  "[''US'', ''JP''] \<noteq> []
   \<and> toISOString (Time july4_2024) = Inr ''2024-07-04T00:00:00.000Z''
   \<and> take 10 ''2024-07-04T00:00:00.000Z'' = moment_format_ymd 0 (Time july4_2024)
   \<and> isWorkday 0 us_holidays [''US'', ''JP''] (Time july4_2024)
       = Inr (\<not> isWeekend 0 (Time july4_2024)
              \<and> (\<forall>code \<in> set [''US'', ''JP''].
                    \<not> (\<exists>h \<in> set (holidaysOf us_holidays code).
                          h_date h = moment_format_ymd 0 (Time july4_2024))))"
proof -
  have h1: "[''US'', ''JP''] \<noteq> []" by simp
  have h2: "toISOString (Time july4_2024) = Inr ''2024-07-04T00:00:00.000Z''" by code_simp
  have h3: "take 10 ''2024-07-04T00:00:00.000Z'' = moment_format_ymd 0 (Time july4_2024)"
    by code_simp
  from isWorkday_all_countries [OF h1 h2 h3, of us_holidays] h1 h2 h3
  show ?thesis by blast
qed

text \<open>
  C5 as stated fails: Thursday 2024-07-04 is a holiday in the United States and not in
  Japan, so it is neither a weekend nor a group holiday, and yet no workday.
\<close>

theorem isWorkday_partial_holiday_counterexample:
  "[''US'', ''JP''] \<noteq> []
   \<and> isWeekend 0 (Time july4_2024) = False
   \<and> isHoliday us_holidays [''US'', ''JP''] (Time july4_2024) = Inr False
   \<and> isWorkday 0 us_holidays [''US'', ''JP''] (Time july4_2024) = Inr False"
proof -
  have 1: "isWeekend 0 (Time july4_2024) = False" by code_simp
  have 2: "isHoliday us_holidays [''US'', ''JP''] (Time july4_2024) = Inr False" by code_simp
  have 3: "isWorkday 0 us_holidays [''US'', ''JP''] (Time july4_2024) = Inr False" by code_simp
  show ?thesis using 1 2 3 by simp
qed

text \<open>
  C6, as amended. \<open>isWeekend\<close> is true exactly when the date's day of the week on the host
  (in the browser's own zone) is Saturday or Sunday, that is when the host-local day
  number is 2 or 3 modulo 7; it takes no display zone, and is false on an Invalid Date.
\<close>

theorem isWeekend_host_local:
  "isWeekend tza (Time t) = (WeekDay (LocalTime tza t) = 0 \<or> WeekDay (LocalTime tza t) = 6)
   \<and> isWeekend tza (Time t) = (Day (LocalTime tza t) mod 7 = 2 \<or> Day (LocalTime tza t) mod 7 = 3)
   \<and> isWeekend tza Invalid_Date = False"
proof -
  have "(Day x + 4) mod 7 = 0 \<longleftrightarrow> Day x mod 7 = 3" for x by presburger
  moreover have "(Day x + 4) mod 7 = 6 \<longleftrightarrow> Day x mod 7 = 2" for x by presburger
  ultimately show ?thesis by (auto simp: isWeekend_def getDay_def WeekDay_def)
qed

theorem isWeekend_host_local_witness:
  "WeekDay (LocalTime 0 friday_evening) = 5
   \<and> isWeekend 0 (Time friday_evening)
       = (WeekDay (LocalTime 0 friday_evening) = 0 \<or> WeekDay (LocalTime 0 friday_evening) = 6)
   \<and> isWeekend 0 (Time friday_evening) = False"
proof -
  have w: "WeekDay (LocalTime 0 friday_evening) = 5" by code_simp
  from isWeekend_host_local [of 0 friday_evening] w show ?thesis by simp
qed

text \<open>
  C6 as stated fails: 2024-07-05T20:00Z is a Friday on a host at UTC and a Saturday in the
  display zone Asia/Tokyo; \<open>isWeekend\<close> is false.
\<close>

theorem isWeekend_display_zone_counterexample:
  "isWeekend 0 (Time friday_evening) = False
   \<and> WeekDay (LocalTime (sample_offsets ''Asia/Tokyo'' * msPerMinute) friday_evening) = 6"
proof -
  have 1: "isWeekend 0 (Time friday_evening) = False" by code_simp
  have 2: "WeekDay (LocalTime (sample_offsets ''Asia/Tokyo'' * msPerMinute) friday_evening) = 6"
    by code_simp
  show ?thesis using 1 2 by simp
qed

section \<open>Properties: the holiday fetch effect\<close>

lemma cached_init:
  "c code = None \<Longrightarrow> cached (c(code \<mapsto> Map.empty)) code' y = cached c code' y"
  by (simp add: cached_def)

lemma yearsForEach_set:
  "set (yearsForEach c code years ts)
     = set ts \<union> {(code, y) |y. y \<in> set years \<and> \<not> cached c code y}"
  unfolding yearsForEach_def
  by (induction years arbitrary: ts) auto

lemma codes_fold_inv:
  "foldl (codes_step years) (c, ts) codes = (c', ts') \<Longrightarrow>
     (\<forall>code y. cached c' code y = cached c code y)
     \<and> set ts' = set ts \<union> {(code, y). code \<in> set codes \<and> y \<in> set years \<and> \<not> cached c code y}"
proof (induction codes arbitrary: c ts)
  case Nil
  then show ?case by simp
next
  case (Cons code codes)
  define c1 where "c1 = (if c code = None then c(code \<mapsto> Map.empty) else c)"
  have same: "cached c1 k y = cached c k y" for k y
    by (simp add: c1_def cached_init)
  from Cons.prems have "foldl (codes_step years) (c1, yearsForEach c1 code years ts) codes = (c', ts')"
    by (simp add: codes_step_def c1_def Let_def)
  from Cons.IH [OF this] show ?case
    by (auto simp: same yearsForEach_set)
qed

lemma codesForEach_inv:
  "codesForEach c codes years = (c', tasks) \<Longrightarrow>
     (\<forall>code y. cached c' code y = cached c code y)
     \<and> set tasks = {(code, y). code \<in> set codes \<and> y \<in> set years \<and> \<not> cached c code y}"
  using codes_fold_inv [of years c "[]" codes c' tasks]
  by (simp add: codesForEach_def codes_step_def)

lemma settle_key: "lastFetchKey (settle st r) = lastFetchKey st"
  by (cases r) (simp add: settle_def split: option.splits)

lemma settles_key: "lastFetchKey (foldl settle st rs) = lastFetchKey st"
  by (induction rs arbitrary: st) (simp_all add: settle_key)

lemma fetchEffect_same_key:
  "lastFetchKey st = fetchKey codes (getYearsInRange tza rs re) \<Longrightarrow>
   fetchEffect tza st rs re codes = (st, [])"
  by (simp add: fetchEffect_def Let_def)

lemma fetchEffect_early:
  "rs = None \<or> re = None \<or> codes = [] \<Longrightarrow> fetchEffect tza st rs re codes = (st, [])"
  by (auto simp: fetchEffect_def)

lemma fetchEffect_cases:
  assumes "fetchEffect tza st rs re codes = (st', tasks)"
  shows "(st' = st \<and> tasks = [] \<and> (rs = None \<or> re = None \<or> codes = []
            \<or> lastFetchKey st = fetchKey codes (getYearsInRange tza rs re)))
       \<or> (lastFetchKey st' = fetchKey codes (getYearsInRange tza rs re)
          \<and> set tasks = {(code, y). code \<in> set codes \<and> y \<in> set (getYearsInRange tza rs re)
                                   \<and> \<not> cached (holidaysCache st) code y})"
proof (cases "rs = None \<or> re = None \<or> codes = []
            \<or> lastFetchKey st = fetchKey codes (getYearsInRange tza rs re)")
  case True
  then have "fetchEffect tza st rs re codes = (st, [])"
    by (auto simp: fetchEffect_def Let_def)
  with assms True show ?thesis by simp
next
  case False
  obtain c' ts where cf: "codesForEach (holidaysCache st) codes (getYearsInRange tza rs re) = (c', ts)"
    by (cases "codesForEach (holidaysCache st) codes (getYearsInRange tza rs re)")
  with False assms have "st' = st\<lparr>lastFetchKey := fetchKey codes (getYearsInRange tza rs re),
                                  holidaysCache := c'\<rparr>" "tasks = ts"
    by (auto simp: fetchEffect_def Let_def)
  with codesForEach_inv [OF cf] show ?thesis by simp
qed

text \<open>
  C8. A run of the effect issues a fetch only for a (country, year) pair without a cache
  entry; a run whose key equals the last issued key issues none and changes nothing;
  and after any run, a further run on the same countries and range issues none, whichever
  fetches have settled in between.
\<close>

theorem fetch_only_missing_once_per_key:
  assumes "fetchEffect tza st rs re codes = (st', tasks)"
  shows "(\<forall>(code, year) \<in> set tasks. \<not> cached (holidaysCache st) code year)
       \<and> (lastFetchKey st = fetchKey codes (getYearsInRange tza rs re) \<longrightarrow> tasks = [] \<and> st' = st)
       \<and> (\<forall>settled. fetchEffect tza (foldl settle st' settled) rs re codes
                       = (foldl settle st' settled, []))"
proof -
  note c = fetchEffect_cases [OF assms]
  have 1: "\<forall>(code, year) \<in> set tasks. \<not> cached (holidaysCache st) code year"
    using c by auto
  have 2: "lastFetchKey st = fetchKey codes (getYearsInRange tza rs re) \<longrightarrow> tasks = [] \<and> st' = st"
    using assms by (auto simp: fetchEffect_same_key)
  have 3: "fetchEffect tza (foldl settle st' settled) rs re codes = (foldl settle st' settled, [])"
    for settled
  proof -
    let ?st2 = "foldl settle st' settled"
    from c show ?thesis
    proof
      assume a: "st' = st \<and> tasks = [] \<and> (rs = None \<or> re = None \<or> codes = []
            \<or> lastFetchKey st = fetchKey codes (getYearsInRange tza rs re))"
      show ?thesis
      proof (cases "rs = None \<or> re = None \<or> codes = []")
        case True
        then show ?thesis by (rule fetchEffect_early)
      next
        case False
        with a have "lastFetchKey ?st2 = fetchKey codes (getYearsInRange tza rs re)"
          by (auto simp: settles_key)
        then show ?thesis by (rule fetchEffect_same_key)
      qed
    next
      assume "lastFetchKey st' = fetchKey codes (getYearsInRange tza rs re)
          \<and> set tasks = {(code, y). code \<in> set codes \<and> y \<in> set (getYearsInRange tza rs re)
                                   \<and> \<not> cached (holidaysCache st) code y}"
      then have "lastFetchKey ?st2 = fetchKey codes (getYearsInRange tza rs re)"
        by (simp add: settles_key)
      then show ?thesis by (rule fetchEffect_same_key)
    qed
  qed
  from 1 2 3 show ?thesis by blast
qed

text \<open>
  From the empty cache, the view 2024-07-04 to 2024-07-05 for the United States and Japan:
  two fetches, both for pairs that were not cached, and none on the second run, here
  after the first fetch has settled.
\<close>

theorem fetch_only_missing_once_per_key_witness:
  "snd (fetchEffect (fixed_zone 0) empty_state (Some (Time july4_2024)) (Some (Time friday_evening))
          [''US'', ''JP'']) = [(''US'', 2024), (''JP'', 2024)]
   \<and> \<not> cached (holidaysCache empty_state) ''US'' 2024
   \<and> \<not> cached (holidaysCache empty_state) ''JP'' 2024
   \<and> snd (fetchEffect (fixed_zone 0)
         (foldl settle
            (fst (fetchEffect (fixed_zone 0) empty_state (Some (Time july4_2024)) (Some (Time friday_evening))
                    [''US'', ''JP'']))
            [(''US'', 2024, [independence_day])])
         (Some (Time july4_2024)) (Some (Time friday_evening)) [''US'', ''JP'']) = []"
proof -
  let ?r = "fetchEffect (fixed_zone 0) empty_state (Some (Time july4_2024)) (Some (Time friday_evening))
              [''US'', ''JP'']"
  have run: "?r = (fst ?r, snd ?r)" by simp
  have ev: "snd ?r = [(''US'', 2024), (''JP'', 2024)]" by code_simp
  note th = fetch_only_missing_once_per_key [OF run]
  from th have a: "\<forall>(code, year) \<in> set (snd ?r). \<not> cached (holidaysCache empty_state) code year"
    by blast
  have 1: "\<not> cached (holidaysCache empty_state) ''US'' 2024"
    using a unfolding ev by simp
  have 2: "\<not> cached (holidaysCache empty_state) ''JP'' 2024"
    using a unfolding ev by simp
  from th have "fetchEffect (fixed_zone 0) (foldl settle (fst ?r) [(''US'', 2024, [independence_day])])
         (Some (Time july4_2024)) (Some (Time friday_evening)) [''US'', ''JP'']
       = (foldl settle (fst ?r) [(''US'', 2024, [independence_day])], [])"
    by blast
  then have 3: "snd (fetchEffect (fixed_zone 0) (foldl settle (fst ?r) [(''US'', 2024, [independence_day])])
         (Some (Time july4_2024)) (Some (Time friday_evening)) [''US'', ''JP'']) = []"
    by simp
  from ev 1 2 3 show ?thesis by blast
qed

end
